theory Spec2Isabelle
  imports Main "HOL-Library.Word"
begin

unbundle bit_operations_syntax

section \<open>Data model of \<open>ascon_core.c\<close>\<close>

text \<open>
  \<open>typedef uint64_t u64\<close>: state words are 64-bit machine words, message, key and tag
  bytes are 8-bit words. The sponge state \<open>u64 s[5]\<close> is a list of words, read with
  \<open>s ! j\<close> and assigned with \<open>s[j := v]\<close>; every index the source uses is a literal
  between 0 and 4, so on a five-word list no access leaves the array.
\<close>

type_synonym u8 = "8 word"
type_synonym u64 = "64 word"
type_synonym state = "u64 list"

text \<open>The round constants \<open>static const u64 RC[12]\<close>.\<close>

definition RC :: "u64 list" where
  "RC = [0x00000000000000f0, 0x00000000000000e1, 0x00000000000000d2,
         0x00000000000000c3, 0x00000000000000b4, 0x00000000000000a5,
         0x0000000000000096, 0x0000000000000087, 0x0000000000000078,
         0x0000000000000069, 0x000000000000005a, 0x000000000000004b]"

text \<open>
  \<open>ror64(x, n) = (x >> n) | (x << (64 - n))\<close>. The shifts of the source are defined
  for \<open>0 < n < 64\<close> only; every call passes a literal in that range.
\<close>

definition ror64 :: "u64 \<Rightarrow> nat \<Rightarrow> u64" where
  "ror64 x n = drop_bit n x OR push_bit (64 - n) x"

section \<open>The permutation\<close>

text \<open>pC, line 39: \<open>s[2] ^= RC[i]\<close>.\<close>

definition pC :: "int \<Rightarrow> state \<Rightarrow> state" where
  "pC i s = s[2 := s ! 2 XOR RC ! nat i]"

text \<open>pS, lines 42 to 49, statement by statement.\<close>

definition pS :: "state \<Rightarrow> state" where
  "pS s0 =
    (let s = s0[0 := s0 ! 0 XOR s0 ! 4];
         s = s[4 := s ! 4 XOR s ! 3];
         s = s[2 := s ! 2 XOR s ! 1];
         t0 = NOT (s ! 0) AND s ! 1;
         t1 = NOT (s ! 1) AND s ! 2;
         t2 = NOT (s ! 2) AND s ! 3;
         t3 = NOT (s ! 3) AND s ! 4;
         t4 = NOT (s ! 4) AND s ! 0;
         s = s[0 := s ! 0 XOR t1];
         s = s[1 := s ! 1 XOR t2];
         s = s[2 := s ! 2 XOR t3];
         s = s[3 := s ! 3 XOR t4];
         s = s[4 := s ! 4 XOR t0];
         s = s[1 := s ! 1 XOR s ! 0];
         s = s[0 := s ! 0 XOR s ! 4];
         s = s[3 := s ! 3 XOR s ! 2];
         s = s[2 := NOT (s ! 2)]
     in s)"

text \<open>pL, lines 52 to 56.\<close>

definition pL :: "state \<Rightarrow> state" where
  "pL s0 =
    (let s = s0[0 := s0 ! 0 XOR (ror64 (s0 ! 0) 19 XOR ror64 (s0 ! 0) 28)];
         s = s[1 := s ! 1 XOR (ror64 (s ! 1) 61 XOR ror64 (s ! 1) 39)];
         s = s[2 := s ! 2 XOR (ror64 (s ! 2) 1 XOR ror64 (s ! 2) 6)];
         s = s[3 := s ! 3 XOR (ror64 (s ! 3) 10 XOR ror64 (s ! 3) 17)];
         s = s[4 := s ! 4 XOR (ror64 (s ! 4) 7 XOR ror64 (s ! 4) 41)]
     in s)"

text \<open>The body of the round loop, lines 37 to 56, for round index \<open>i\<close>.\<close>

definition round_body :: "int \<Rightarrow> state \<Rightarrow> state" where
  "round_body i s = pL (pS (pC i s))"

text \<open>
  \<open>for (int i = start; i < 12; i++)\<close>. The index is a C \<open>int\<close>; it only grows from
  \<open>start\<close> to 12. For \<open>rounds > 12\<close> the source would read \<open>RC\<close> at a negative
  index; the statements below are about \<open>rounds \<le> 12\<close>.
\<close>

function round_loop :: "int \<Rightarrow> state \<Rightarrow> state" where
  "round_loop i s = (if i < 12 then round_loop (i + 1) (round_body i s) else s)"
  by pat_completeness auto
termination
  by (relation "measure (\<lambda>(i, s). nat (12 - i))") auto

declare round_loop.simps [simp del]

definition ascon_permutation :: "state \<Rightarrow> int \<Rightarrow> state" where
  "ascon_permutation s rounds = (let start = 12 - rounds in round_loop start s)"

section \<open>Properties of the permutation\<close>

text \<open>
  Claim C10. Called with \<open>rounds = 0\<close> the permutation is the identity: the loop starts
  at \<open>12 - 0 = 12\<close>, its condition \<open>i < 12\<close> fails at once, and the state is returned
  as it came, whatever it holds.
\<close>

theorem ascon_permutation_zero_rounds: "ascon_permutation s 0 = s"
  by (simp add: ascon_permutation_def round_loop.simps)

end
